theory Spec2Isabelle
  imports Complex_Main "HOL-Library.Log_Nat"
begin

section \<open>Text primitives of the signal parser\<close>

text \<open>
  A \<open>string\<close> stands for a Python \<open>str\<close> whose code points are all below 256, one
  \<open>char\<close> per code point. \<open>isspace\<close> is the set that \<open>str.strip\<close>, \<open>str.split\<close>
  and the regular expression class \<open>\s\<close> share on that range.
\<close>

definition NL :: char where "NL = CHR 0x0A"
definition DQ :: char where "DQ = CHR 0x22"
definition SQ :: char where "SQ = CHR 0x27"

definition isspace :: "char \<Rightarrow> bool" where
  "isspace c = (c \<in> set [CHR 0x09, CHR 0x0A, CHR 0x0B, CHR 0x0C, CHR 0x0D,
                          CHR 0x1C, CHR 0x1D, CHR 0x1E, CHR 0x1F, CHR 0x20,
                          CHR 0x85, CHR 0xA0])"

definition lstrip :: "string \<Rightarrow> string" where
  "lstrip s = dropWhile isspace s"

definition rstrip :: "string \<Rightarrow> string" where
  "rstrip s = rev (dropWhile isspace (rev s))"

definition strip :: "string \<Rightarrow> string" where
  "strip s = rstrip (lstrip s)"

definition startswith :: "string \<Rightarrow> string \<Rightarrow> bool" where
  "startswith s p = (take (length p) s = p)"

definition endswith :: "string \<Rightarrow> string \<Rightarrow> bool" where
  "endswith s p = (length p \<le> length s \<and> drop (length s - length p) s = p)"

text \<open>\<open>s[1:-1]\<close>: the empty string when \<open>s\<close> has fewer than two characters.\<close>

definition slice_1_m1 :: "string \<Rightarrow> string" where
  "slice_1_m1 s = butlast (tl s)"

text \<open>\<open>s.split(d)\<close> for a one-character separator: never the empty list.\<close>

fun split_on :: "char \<Rightarrow> string \<Rightarrow> string list" where
  "split_on d [] = [[]]"
| "split_on d (c # cs) =
     (if c = d then [] # split_on d cs
      else (case split_on d cs of
              [] \<Rightarrow> [[c]]
            | r # rs \<Rightarrow> (c # r) # rs))"

text \<open>\<open>s.split()\<close>: the maximal runs of non-space characters, \<open>cur\<close> holding the run
  being read, reversed.\<close>

fun split_ws_acc :: "string \<Rightarrow> string \<Rightarrow> string list" where
  "split_ws_acc cur [] = (if cur = [] then [] else [rev cur])"
| "split_ws_acc cur (c # cs) =
     (if isspace c
      then (if cur = [] then split_ws_acc [] cs else rev cur # split_ws_acc [] cs)
      else split_ws_acc (c # cur) cs)"

definition split_ws :: "string \<Rightarrow> string list" where
  "split_ws s = split_ws_acc [] s"

text \<open>\<open>str.upper\<close> on the letters a-z. The parser only asks whether the upper-cased
  line starts with \<open>SL\<close> or \<open>TP\<close>, and below 256 no other character upper-cases to a
  string that begins with one of these letters followed by the next.\<close>

definition upper_char :: "char \<Rightarrow> char" where
  "upper_char c = (if c \<in> set ''abcdefghijklmnopqrstuvwxyz''
                   then char_of (of_char c - (32::nat)) else c)"

definition upper :: "string \<Rightarrow> string" where
  "upper s = map upper_char s"

definition lower_char :: "char \<Rightarrow> char" where
  "lower_char c = (if c \<in> set ''ABCDEFGHIJKLMNOPQRSTUVWXYZ''
                   then char_of (of_char c + (32::nat)) else c)"

definition is_digit :: "char \<Rightarrow> bool" where
  "is_digit c = (c \<in> set ''0123456789'')"

definition is_AZ :: "char \<Rightarrow> bool" where
  "is_AZ c = (c \<in> set ''ABCDEFGHIJKLMNOPQRSTUVWXYZ'')"

definition is_digit_or_dot :: "char \<Rightarrow> bool" where
  "is_digit_or_dot c = (is_digit c \<or> c = CHR ''.'')"

section \<open>Python floats\<close>

text \<open>
  A \<open>float\<close> is an IEEE 754 double: a finite value (kept as the rational it denotes),
  an infinity or a NaN. The sign of zero is not kept: no comparison sees it.
\<close>

datatype pyfloat = Finite rat | PosInf | NegInf | NaN

fun float_lt :: "pyfloat \<Rightarrow> pyfloat \<Rightarrow> bool" where
  "float_lt NaN _ = False"
| "float_lt _ NaN = False"
| "float_lt (Finite a) (Finite b) = (a < b)"
| "float_lt _ NegInf = False"
| "float_lt NegInf _ = True"
| "float_lt PosInf _ = False"
| "float_lt (Finite a) PosInf = True"

fun float_le :: "pyfloat \<Rightarrow> pyfloat \<Rightarrow> bool" where
  "float_le NaN _ = False"
| "float_le _ NaN = False"
| "float_le (Finite a) (Finite b) = (a \<le> b)"
| "float_le NegInf _ = True"
| "float_le _ PosInf = True"
| "float_le PosInf _ = False"
| "float_le (Finite a) NegInf = False"

definition float_ge :: "pyfloat \<Rightarrow> pyfloat \<Rightarrow> bool" where
  "float_ge a b = float_le b a"

definition float_gt :: "pyfloat \<Rightarrow> pyfloat \<Rightarrow> bool" where
  "float_gt a b = float_lt b a"

definition float_neg :: "pyfloat \<Rightarrow> pyfloat" where
  "float_neg x = (case x of Finite q \<Rightarrow> Finite (- q) | PosInf \<Rightarrow> NegInf
                  | NegInf \<Rightarrow> PosInf | NaN \<Rightarrow> NaN)"

subsection \<open>Rounding a positive fraction to the nearest double\<close>

definition pow2 :: "int \<Rightarrow> rat" where
  "pow2 e = (if 0 \<le> e then 2 ^ nat e else 1 / 2 ^ nat (- e))"

text \<open>\<open>scale2 a b k\<close> is a fraction equal to \<open>(a / b) / 2 ^ k\<close>.\<close>

definition scale2 :: "nat \<Rightarrow> nat \<Rightarrow> int \<Rightarrow> nat \<times> nat" where
  "scale2 a b k = (if 0 \<le> k then (a, b * 2 ^ nat k) else (a * 2 ^ nat (- k), b))"

text \<open>The binary exponent \<open>e\<close> of \<open>a / b\<close>: \<open>2 ^ e \<le> a / b < 2 ^ (e + 1)\<close>.\<close>

definition binexp :: "nat \<Rightarrow> nat \<Rightarrow> int" where
  "binexp a b = (let e1 = int (floorlog 2 a) - int (floorlog 2 b); (n, d) = scale2 a b e1
                 in if d \<le> n then e1 else e1 - 1)"

definition div_half_even :: "nat \<Rightarrow> nat \<Rightarrow> nat" where
  "div_half_even n d = (let f = n div d; r = n mod d
     in if 2 * r < d then f else if d < 2 * r then f + 1 else if even f then f else f + 1)"

text \<open>53 significant bits, exponents from -1022 (below it the spacing stays
  \<open>2 ^ -1074\<close>), round to nearest with ties to even, overflow to infinity.\<close>

definition to_double :: "nat \<Rightarrow> nat \<Rightarrow> pyfloat" where
  "to_double a b = (if a = 0 then Finite 0 else
     let e = max (binexp a b) (- 1022); (n, d) = scale2 a b (e - 52);
         r = of_nat (div_half_even n d) * pow2 (e - 52)
     in if pow2 1024 \<le> r then PosInf else Finite r)"

text \<open>The number of binary digits of a numeral, which is what \<open>floorlog 2\<close> gives on
  it.\<close>

fun blen :: "num \<Rightarrow> nat" where
  "blen num.One = 1"
| "blen (num.Bit0 k) = Suc (blen k)"
| "blen (num.Bit1 k) = Suc (blen k)"

subsection \<open>\<open>float(str)\<close>\<close>

definition digit_val :: "char \<Rightarrow> nat" where
  "digit_val c = (of_char c - 48)"

definition digits_val :: "string \<Rightarrow> nat" where
  "digits_val ds = foldl (\<lambda>n c. 10 * n + digit_val c) 0 ds"

text \<open>An underscore is allowed only between two digits; \<open>prev\<close> is the character
  before, if any.\<close>

fun underscores_ok :: "char option \<Rightarrow> string \<Rightarrow> bool" where
  "underscores_ok prev [] = (prev \<noteq> Some (CHR ''_''))"
| "underscores_ok prev (c # cs) =
     (if c = CHR ''_''
      then (case prev of None \<Rightarrow> False | Some p \<Rightarrow> is_digit p \<and> underscores_ok (Some c) cs)
      else if prev = Some (CHR ''_'') then is_digit c \<and> underscores_ok (Some c) cs
      else underscores_ok (Some c) cs)"

definition drop_sign :: "string \<Rightarrow> bool \<times> string" where
  "drop_sign s = (case s of
       [] \<Rightarrow> (False, [])
     | c # cs \<Rightarrow> if c = CHR ''-'' then (True, cs)
                else if c = CHR ''+'' then (False, cs) else (False, s))"

definition parse_inf_or_nan :: "string \<Rightarrow> pyfloat option" where
  "parse_inf_or_nan s = (let (neg, r) = drop_sign s; w = map lower_char r
     in if w = ''inf'' \<or> w = ''infinity'' then Some (if neg then NegInf else PosInf)
        else if w = ''nan'' then Some NaN else None)"

text \<open>The decimal exponent after the mantissa: absent, or \<open>e\<close>/\<open>E\<close>, an optional
  sign and at least one digit, up to the end of the string.\<close>

definition parse_exponent :: "string \<Rightarrow> int option" where
  "parse_exponent s = (case s of
       [] \<Rightarrow> Some 0
     | c # cs \<Rightarrow>
         if c = CHR ''e'' \<or> c = CHR ''E''
         then (let (neg, ds) = drop_sign cs
               in if ds \<noteq> [] \<and> list_all is_digit ds
                  then Some (if neg then - int (digits_val ds) else int (digits_val ds))
                  else None)
         else None)"

definition parse_decimal :: "string \<Rightarrow> pyfloat option" where
  "parse_decimal s = (let (neg, s1) = drop_sign s;
         ip = takeWhile is_digit s1; r1 = dropWhile is_digit s1;
         has_dot = (r1 \<noteq> [] \<and> hd r1 = CHR ''.'');
         fp = (if has_dot then takeWhile is_digit (tl r1) else []);
         r2 = (if has_dot then dropWhile is_digit (tl r1) else r1)
     in if ip = [] \<and> fp = [] then None
        else (case parse_exponent r2 of
                None \<Rightarrow> None
              | Some ex \<Rightarrow>
                  let m = digits_val (ip @ fp); e10 = ex - int (length fp);
                      v = (if 0 \<le> e10 then to_double (m * 10 ^ nat e10) 1
                           else to_double m (10 ^ nat (- e10)))
                  in Some (if neg then float_neg v else v)))"

text \<open>\<open>float(s)\<close> for a string without surrounding white space: \<open>None\<close> where Python
  raises \<open>ValueError\<close>.\<close>

definition pyfloat_of_string :: "string \<Rightarrow> pyfloat option" where
  "pyfloat_of_string s =
     (if underscores_ok None s
      then (let t = filter (\<lambda>c. c \<noteq> CHR ''_'') s
            in case parse_inf_or_nan t of Some v \<Rightarrow> Some v | None \<Rightarrow> parse_decimal t)
      else None)"

section \<open>The signal parser\<close>

text \<open>\<^verbatim>\<open>apps/broker/functions/signal_parser.py\<close>, function \<open>parse_signal\<close>.\<close>

datatype action = BUY | SELL

record signal_data =
  action :: action
  instrument :: string
  price :: "pyfloat option"
  stop_loss :: pyfloat
  take_profit :: pyfloat

datatype parse_result = Valid signal_data | Invalid string

text \<open>The argument of \<open>parse_signal\<close>: a \<open>str\<close>, or any other object. For another
  object the field says what its truth test does: \<open>Inr b\<close> returns \<open>b\<close>, \<open>Inl e\<close>
  raises an exception whose text is \<open>e\<close>.\<close>

datatype message_arg = Str string | NonStr "string + bool"

text \<open>Exceptions, each with the text that \<open>str(e)\<close> gives.\<close>

datatype py_exception = ValueError string | TypeError string | ValidationError string
  | DoesNotExist string | OperationalError string | OtherException string

fun exception_str :: "py_exception \<Rightarrow> string" where
  "exception_str (ValueError m) = m"
| "exception_str (TypeError m) = m"
| "exception_str (ValidationError m) = m"
| "exception_str (DoesNotExist m) = m"
| "exception_str (OperationalError m) = m"
| "exception_str (OtherException m) = m"

text \<open>The two quote removals are two consecutive \<open>if\<close> statements: the second one
  tests the message the first one left.\<close>

definition strip_double_quotes :: "string \<Rightarrow> string" where
  "strip_double_quotes message =
     (if startswith message [DQ] \<and> endswith message [DQ]
      then strip (slice_1_m1 message) else message)"

definition strip_single_quotes :: "string \<Rightarrow> string" where
  "strip_single_quotes message =
     (if startswith message [SQ] \<and> endswith message [SQ]
      then strip (slice_1_m1 message) else message)"

definition strip_quotes :: "string \<Rightarrow> string" where
  "strip_quotes message = strip_single_quotes (strip_double_quotes message)"

definition signal_lines :: "string \<Rightarrow> string list" where
  "signal_lines message = filter (\<lambda>l. l \<noteq> []) (map strip (split_on NL message))"

text \<open>
  The price part of the first line, after the instrument and optional white space:
  \<^verbatim>\<open>\[@?([\d.]+)[^\]]*\]\<close> or \<^verbatim>\<open>@([\d.]+)\<close>, up to the end of the line. In the
  bracket form the greedy group takes the longest run of digits and dots, and what
  follows it must be free of \<open>]\<close> up to the closing one, which ends the line.
\<close>

definition match_price :: "string \<Rightarrow> string option" where
  "match_price r = (case r of
       [] \<Rightarrow> None
     | c # t \<Rightarrow>
         if c = CHR ''[''
         then (let t1 = (if t \<noteq> [] \<and> hd t = CHR ''@'' then tl t else t);
                   p = takeWhile is_digit_or_dot t1; rest = dropWhile is_digit_or_dot t1
               in if p \<noteq> [] \<and> rest \<noteq> [] \<and> last rest = CHR '']''
                     \<and> CHR '']'' \<notin> set (butlast rest)
                  then Some p else None)
         else if c = CHR ''@''
         then (if t \<noteq> [] \<and> list_all is_digit_or_dot t then Some t else None)
         else None)"

text \<open>
  \<^verbatim>\<open>re.match(r"^(BUY|SELL)\s+([A-Z]+)(?:\s*(?:\[@?([\d.]+)[^\]]*\]|@([\d.]+)))?$", first_line)\<close>
  on a stripped line without line break: the action, the instrument and
  \<open>group(3) or group(4)\<close>. Each greedy run is followed by something its class
  excludes, so the longest run is the only one that can lead to a match.
\<close>

definition match_first_line :: "string \<Rightarrow> (action \<times> string \<times> string option) option" where
  "match_first_line first_line =
     (case (if startswith first_line ''BUY'' then Some (BUY, drop 3 first_line)
            else if startswith first_line ''SELL'' then Some (SELL, drop 4 first_line)
            else None) of
        None \<Rightarrow> None
      | Some (a, r1) \<Rightarrow>
          let r2 = dropWhile isspace r1;
              instr = takeWhile is_AZ r2; r3 = dropWhile is_AZ r2
          in if takeWhile isspace r1 = [] \<or> instr = [] then None
             else if r3 = [] then Some (a, instr, None)
             else (case match_price (dropWhile isspace r3) of
                     None \<Rightarrow> None
                   | Some p \<Rightarrow> Some (a, instr, Some p)))"

text \<open>\<open>float(line.split()[1])\<close> inside \<open>try ... except (IndexError, ValueError)\<close>:
  \<open>None\<close> when either is raised.\<close>

definition second_token_float :: "string \<Rightarrow> pyfloat option" where
  "second_token_float line = (case split_ws line of
       [] \<Rightarrow> None
     | [t] \<Rightarrow> None
     | t # u # ts \<Rightarrow> pyfloat_of_string u)"

text \<open>The loop over \<open>lines[1:]\<close>; \<open>Inl\<close> is the error of an early return.\<close>

fun scan_sl_tp :: "string list \<Rightarrow> pyfloat option \<Rightarrow> pyfloat option
                   \<Rightarrow> string + (pyfloat option \<times> pyfloat option)" where
  "scan_sl_tp [] sl tp = Inr (sl, tp)"
| "scan_sl_tp (line # rest) sl tp =
     (if startswith (upper line) ''SL''
      then (case second_token_float line of
              None \<Rightarrow> Inl ''Invalid SL format''
            | Some v \<Rightarrow> scan_sl_tp rest (Some v) tp)
      else if startswith (upper line) ''TP''
      then (case second_token_float line of
              None \<Rightarrow> Inl ''Invalid TP format''
            | Some v \<Rightarrow> scan_sl_tp rest sl (Some v))
      else scan_sl_tp rest sl tp)"

definition float_value_error :: "string \<Rightarrow> py_exception" where
  "float_value_error p = ValueError (''could not convert string to float: '' @ [SQ] @ p @ [SQ])"

text \<open>The logical validation and the result, once SL and TP were read.\<close>

definition validate_signal :: "action \<Rightarrow> string \<Rightarrow> pyfloat option \<Rightarrow> pyfloat \<Rightarrow> pyfloat
                               \<Rightarrow> parse_result" where
  "validate_signal a instr pr sl tp =
     (if a = BUY \<and> float_ge sl tp then Invalid ''For BUY, SL must be lower than TP''
      else if a = SELL \<and> float_le sl tp then Invalid ''For SELL, SL must be higher than TP''
      else Valid \<lparr>action = a, instrument = instr, price = pr,
                   stop_loss = sl, take_profit = tp\<rparr>)"

text \<open>The body of the \<open>try\<close> on a non-empty string; \<open>Inl\<close> is an exception that
  leaves it. Only the conversion of the price can raise: the group matched digits
  and dots, which need not be a number.\<close>

definition parse_text :: "string \<Rightarrow> py_exception + parse_result" where
  "parse_text message0 =
     (let message = strip_quotes message0; lines = signal_lines message
      in case lines of
           [] \<Rightarrow> Inr (Invalid ''Incomplete signal data'')
         | first_line # others \<Rightarrow>
             if others = [] then Inr (Invalid ''Incomplete signal data'')
             else (case match_first_line first_line of
                 None \<Rightarrow> Inr (Invalid ''Invalid first line format'')
               | Some (a, instr, pr) \<Rightarrow>
                   (case (case pr of None \<Rightarrow> Inr None
                          | Some p \<Rightarrow> (case pyfloat_of_string p of
                                         None \<Rightarrow> Inl (float_value_error p)
                                       | Some v \<Rightarrow> Inr (Some v))) of
                      Inl e \<Rightarrow> Inl e
                    | Inr pv \<Rightarrow>
                        (case scan_sl_tp others None None of
                           Inl err \<Rightarrow> Inr (Invalid err)
                         | Inr (None, tp) \<Rightarrow> Inr (Invalid ''SL missing'')
                         | Inr (Some sl, None) \<Rightarrow> Inr (Invalid ''TP missing'')
                         | Inr (Some sl, Some tp) \<Rightarrow> Inr (validate_signal a instr pv sl tp)))))"

fun parse_signal_try :: "message_arg \<Rightarrow> py_exception + parse_result" where
  "parse_signal_try (NonStr (Inl e)) = Inl (OtherException e)"
| "parse_signal_try (NonStr (Inr b)) = Inr (Invalid ''Empty message'')"
| "parse_signal_try (Str message) =
     (if message = [] then Inr (Invalid ''Empty message'') else parse_text message)"

text \<open>\<open>except Exception as e\<close> around the whole body.\<close>

definition parse_signal :: "message_arg \<Rightarrow> parse_result" where
  "parse_signal message = (case parse_signal_try message of
       Inl e \<Rightarrow> Invalid (''Unexpected error: '' @ exception_str e)
     | Inr r \<Rightarrow> r)"






section \<open>Stored data and queued tasks\<close>

text \<open>\<^verbatim>\<open>apps/broker/models\<close> and \<^verbatim>\<open>apps/order/models\<close>: the status choices and the
  rows of \<open>TradingSignal\<close>, \<open>Order\<close> and \<open>OrderHistory\<close>. A user is kept by its
  username, a decimal column by its value.\<close>

datatype signal_status = SigPending | SigProcessing | SigSuccess | SigFailed

datatype order_status = Pending | Executed | Closed | Rejected | Cancelled

fun order_status_value :: "order_status \<Rightarrow> string" where
  "order_status_value Pending = ''pending''"
| "order_status_value Executed = ''executed''"
| "order_status_value Closed = ''closed''"
| "order_status_value Rejected = ''rejected''"
| "order_status_value Cancelled = ''cancelled''"

record trading_signal =
  sig_id :: nat
  sig_user :: string
  sig_account :: "nat option"
  raw_message :: "string option"
  sig_status :: signal_status
  error_message :: "string option"

record order =
  ord_id :: nat
  order_id :: "string option"
  ord_user :: string
  ord_signal :: "nat option"
  ord_action :: "action option"
  ord_instrument :: string
  entry_price :: "rat option"
  ord_stop_loss :: rat
  ord_take_profit :: rat
  ord_status :: order_status

record order_history =
  hist_id :: nat
  hist_order :: nat
  hist_status :: order_status
  hist_description :: string

text \<open>The payloads handed to \<open>broadcast_order_event\<close> and \<open>notify_signal_invalid\<close>.\<close>

record order_event =
  ev_type :: string
  ev_order_id :: "string option"
  ev_instrument :: string
  ev_entry_price :: rat
  ev_status :: order_status

record invalid_event =
  iv_event :: string
  iv_trading_id :: nat
  iv_user :: string
  iv_account_id :: "nat option"
  iv_error_message :: "string option"

text \<open>A message that \<open>.delay(...)\<close> has sent to the broker.\<close>

datatype queued = ProcessSignal nat | SimulateOrderLifecycle nat
  | BroadcastOrderEvent order_event | NotifySignalInvalid invalid_event

record database =
  signals :: "trading_signal list"
  orders :: "order list"
  histories :: "order_history list"

text \<open>The database and the broker are two systems: a transaction covers the first
  only.\<close>

record world =
  db :: database
  queue :: "queued list"

section \<open>Tasks as state transformers with exceptions\<close>

type_synonym 'a task = "world \<Rightarrow> (py_exception + 'a) \<times> world"

definition returns :: "'a \<Rightarrow> 'a task" where
  "returns a = (\<lambda>w. (Inr a, w))"

definition raises :: "py_exception \<Rightarrow> 'a task" where
  "raises e = (\<lambda>w. (Inl e, w))"

definition and_then :: "'a task \<Rightarrow> ('a \<Rightarrow> 'b task) \<Rightarrow> 'b task" where
  "and_then m f = (\<lambda>w. case m w of (Inl e, w') \<Rightarrow> (Inl e, w') | (Inr a, w') \<Rightarrow> f a w')"

text \<open>\<open>with atomic():\<close> an exception that leaves the block restores the database
  to what it was on entry and goes on propagating. What was sent to the broker
  meanwhile stays sent.\<close>

definition atomic :: "'a task \<Rightarrow> 'a task" where
  "atomic m = (\<lambda>w. case m w of
       (Inl e, w') \<Rightarrow> (Inl e, w'\<lparr>db := db w\<rparr>)
     | (Inr a, w') \<Rightarrow> (Inr a, w'))"

definition try_except :: "'a task \<Rightarrow> (py_exception \<Rightarrow> 'a task) \<Rightarrow> 'a task" where
  "try_except m h = (\<lambda>w. case m w of (Inl e, w') \<Rightarrow> h e w' | (Inr a, w') \<Rightarrow> (Inr a, w'))"

text \<open>The calls that reach the database or the broker. Any of them can fail for a
  reason outside the program (connection lost, a validator or constraint not
  described here); \<open>fails\<close> says which ones do in a given run.\<close>

datatype operation = SaveProcessing | SaveInvalid | NotifyInvalid | CreateOrder | SaveOrder
  | BroadcastPending | EnqueueLifecycle | CreateHistory | SaveHistory | SaveSuccess
  | SaveError | SaveExecuted | BroadcastExecuted | CreateHistoryExecuted | SaveHistoryExecuted
  | SaveClosed | BroadcastClosed | CreateHistoryClosed | SaveHistoryClosed

definition external :: "(operation \<Rightarrow> bool) \<Rightarrow> operation \<Rightarrow> unit task" where
  "external fails opn = (if fails opn then raises (OperationalError ''operation failed'')
                         else returns ())"

definition delay :: "(operation \<Rightarrow> bool) \<Rightarrow> operation \<Rightarrow> queued \<Rightarrow> unit task" where
  "delay fails opn msg =
     and_then (external fails opn) (\<lambda>_ w. (Inr (), w\<lparr>queue := queue w @ [msg]\<rparr>))"

definition fresh_id :: "nat list \<Rightarrow> nat" where
  "fresh_id ids = Suc (fold max ids 0)"

subsection \<open>TradingSignal\<close>

definition get_signal :: "nat \<Rightarrow> trading_signal task" where
  "get_signal signal_id = (\<lambda>w.
     case find (\<lambda>s. sig_id s = signal_id) (signals (db w)) of
       None \<Rightarrow> (Inl (DoesNotExist ''TradingSignal matching query does not exist.''), w)
     | Some s \<Rightarrow> (Inr s, w))"

definition write_signal :: "nat \<Rightarrow> (trading_signal \<Rightarrow> trading_signal) \<Rightarrow> world \<Rightarrow> world" where
  "write_signal signal_id f w =
     w\<lparr>db := (db w)\<lparr>signals := map (\<lambda>s. if sig_id s = signal_id then f s else s)
                                    (signals (db w))\<rparr>\<rparr>"

text \<open>\<open>signal.save(update_fields=["status"])\<close>,
  \<open>signal.save(update_fields=["status", "error_message"])\<close> and \<open>signal.save()\<close>, from
  the object \<open>signal\<close> held in memory.\<close>

definition save_signal_status :: "(operation \<Rightarrow> bool) \<Rightarrow> operation \<Rightarrow> trading_signal \<Rightarrow> unit task" where
  "save_signal_status fails opn signal =
     and_then (external fails opn) (\<lambda>_ w.
       (Inr (), write_signal (sig_id signal) (\<lambda>s. s\<lparr>sig_status := sig_status signal\<rparr>) w))"

definition save_signal_status_error :: "(operation \<Rightarrow> bool) \<Rightarrow> operation \<Rightarrow> trading_signal \<Rightarrow> unit task" where
  "save_signal_status_error fails opn signal =
     and_then (external fails opn) (\<lambda>_ w.
       (Inr (), write_signal (sig_id signal)
                  (\<lambda>s. s\<lparr>sig_status := sig_status signal,
                          error_message := error_message signal\<rparr>) w))"

definition save_signal :: "(operation \<Rightarrow> bool) \<Rightarrow> operation \<Rightarrow> trading_signal \<Rightarrow> unit task" where
  "save_signal fails opn signal =
     and_then (external fails opn) (\<lambda>_ w.
       (Inr (), write_signal (sig_id signal) (\<lambda>s. signal) w))"

subsection \<open>Order and OrderHistory\<close>

text \<open>\<open>Order.save\<close> runs \<open>full_clean\<close> first. Of the field validators, the ones the
  model declares: \<open>max_length=20\<close> on the instrument, which may not be blank, and
  \<open>MinValueValidator(0)\<close> on stop-loss and take-profit.\<close>

definition clean_fields_ok :: "order \<Rightarrow> bool" where
  "clean_fields_ok od = (ord_instrument od \<noteq> [] \<and> length (ord_instrument od) \<le> 20
                         \<and> 0 \<le> ord_stop_loss od \<and> 0 \<le> ord_take_profit od)"

text \<open>\<open>validate_unique\<close>: \<open>signal\<close> is a \<open>OneToOneField\<close> and \<open>order_id\<close> is unique; rows
  with the primary key \<open>pk\<close> of the order itself are left out, and \<open>NULL\<close> never
  clashes.\<close>

definition validate_unique_ok :: "nat option \<Rightarrow> order \<Rightarrow> order list \<Rightarrow> bool" where
  "validate_unique_ok pk od rows =
     (let others = filter (\<lambda>r. Some (ord_id r) \<noteq> pk) rows
      in (if ord_signal od = None then True else ord_signal od \<notin> set (map ord_signal others))
         \<and> (if order_id od = None then True else order_id od \<notin> set (map order_id others)))"

text \<open>What the run takes from outside the source tree: \<open>round_half_up\<close> of
  \<^verbatim>\<open>_library/functions/number_utils.py\<close> (its argument is a float or \<open>None\<close>, its
  result a decimal or \<open>None\<close>, or it raises), and the identifier that
  \<open>generate_custom_id\<close> builds from the date and the stored orders.\<close>

record environment =
  round_half_up :: "pyfloat option \<Rightarrow> nat \<Rightarrow> py_exception + rat option"
  generate_custom_id :: "order list \<Rightarrow> string"

text \<open>\<open>clean\<close>, as \<open>full_clean\<close> calls it between the field and the uniqueness checks.\<close>

definition clean :: "environment \<Rightarrow> order list \<Rightarrow> order \<Rightarrow> order" where
  "clean env rows od = (if order_id od = None \<or> order_id od = Some []
                       then od\<lparr>order_id := Some (generate_custom_id env rows)\<rparr> else od)"

definition full_clean :: "environment \<Rightarrow> nat option \<Rightarrow> order \<Rightarrow> order task" where
  "full_clean env pk od = (\<lambda>w.
     let od' = clean env (orders (db w)) od
     in if clean_fields_ok od \<and> validate_unique_ok pk od' (orders (db w))
        then (Inr od', w)
        else (Inl (ValidationError ''order failed validation''), w))"

text \<open>\<open>Order.objects.create(...)\<close>: validation with no primary key yet, then the
  insert.\<close>

definition objects_create_order :: "environment \<Rightarrow> (operation \<Rightarrow> bool) \<Rightarrow> order \<Rightarrow> order task" where
  "objects_create_order env fails od0 =
     and_then (full_clean env None od0) (\<lambda>od.
     and_then (external fails CreateOrder) (\<lambda>_ w.
       let row = od\<lparr>ord_id := fresh_id (map ord_id (orders (db w)))\<rparr>
       in (Inr row, w\<lparr>db := (db w)\<lparr>orders := orders (db w) @ [row]\<rparr>\<rparr>)))"

text \<open>\<open>order.save()\<close>: validation, then every column of the row is written.\<close>

definition save_order :: "environment \<Rightarrow> (operation \<Rightarrow> bool) \<Rightarrow> operation \<Rightarrow> order \<Rightarrow> order task" where
  "save_order env fails opn od0 =
     and_then (full_clean env (Some (ord_id od0)) od0) (\<lambda>od.
     and_then (external fails opn) (\<lambda>_ w.
       (Inr od, w\<lparr>db := (db w)\<lparr>orders := map (\<lambda>r. if ord_id r = ord_id od then od else r)
                                               (orders (db w))\<rparr>\<rparr>)))"

text \<open>\<open>order.save(update_fields=["status"])\<close>: validation, then the status column
  alone is written.\<close>

definition save_order_status :: "environment \<Rightarrow> (operation \<Rightarrow> bool) \<Rightarrow> operation \<Rightarrow> order \<Rightarrow> order task" where
  "save_order_status env fails opn od0 =
     and_then (full_clean env (Some (ord_id od0)) od0) (\<lambda>od.
     and_then (external fails opn) (\<lambda>_ w.
       (Inr od, w\<lparr>db := (db w)\<lparr>orders :=
                  map (\<lambda>r. if ord_id r = ord_id od then r\<lparr>ord_status := ord_status od\<rparr> else r)
                      (orders (db w))\<rparr>\<rparr>)))"

text \<open>\<open>float(order.entry_price)\<close>: a \<open>TypeError\<close> when the price is \<open>None\<close>.\<close>

definition float_of_decimal :: "rat option \<Rightarrow> rat task" where
  "float_of_decimal v = (case v of
       None \<Rightarrow> raises (TypeError (''float() argument must be a string or a real number, not ''
                                  @ [SQ] @ ''NoneType'' @ [SQ]))
     | Some x \<Rightarrow> returns x)"

text \<open>\<open>OrderHistory.objects.create(order=..., status=..., description={"message": msg})\<close>
  and the \<open>order_history.save()\<close> after it, which writes the same row again.\<close>

definition objects_create_history :: "(operation \<Rightarrow> bool) \<Rightarrow> operation \<Rightarrow> nat \<Rightarrow> order_status
                                       \<Rightarrow> string \<Rightarrow> order_history task" where
  "objects_create_history fails opn oid st msg =
     and_then (external fails opn) (\<lambda>_ w.
       let h = \<lparr>hist_id = fresh_id (map hist_id (histories (db w))), hist_order = oid,
                hist_status = st, hist_description = msg\<rparr>
       in (Inr h, w\<lparr>db := (db w)\<lparr>histories := histories (db w) @ [h]\<rparr>\<rparr>))"

definition save_history :: "(operation \<Rightarrow> bool) \<Rightarrow> operation \<Rightarrow> order_history \<Rightarrow> unit task" where
  "save_history fails opn h = external fails opn"

definition lift_result :: "py_exception + 'a \<Rightarrow> 'a task" where
  "lift_result r = (case r of Inl e \<Rightarrow> raises e | Inr a \<Rightarrow> returns a)"

section \<open>The signal processing worker\<close>

text \<open>\<^verbatim>\<open>apps/broker/tasks/paser_signal_task.py\<close>, \<open>process_signal_task\<close>.\<close>

definition message_of :: "string option \<Rightarrow> message_arg" where
  "message_of raw = (case raw of None \<Rightarrow> NonStr (Inr False) | Some m \<Rightarrow> Str m)"

definition order_event_of :: "order \<Rightarrow> rat \<Rightarrow> order_status \<Rightarrow> order_event" where
  "order_event_of od p st =
     \<lparr>ev_type = ''order.'' @ order_status_value st, ev_order_id = order_id od,
      ev_instrument = ord_instrument od, ev_entry_price = p, ev_status = ord_status od\<rparr>"

text \<open>The body of \<open>with atomic():\<close>, lines 44 to 77.\<close>

definition create_order_block :: "environment \<Rightarrow> (operation \<Rightarrow> bool) \<Rightarrow> trading_signal
                                   \<Rightarrow> signal_data \<Rightarrow> unit task" where
  "create_order_block env fails signal d =
     and_then (lift_result (round_half_up env (price d) 4)) (\<lambda>ep.
     and_then (lift_result (round_half_up env (Some (stop_loss d)) 4)) (\<lambda>sl.
     and_then (lift_result (round_half_up env (Some (take_profit d)) 4)) (\<lambda>tp.
       case sl of
         None \<Rightarrow> raises (ValidationError ''stop_loss: This field cannot be null.'')
       | Some sl' \<Rightarrow>
       (case tp of
         None \<Rightarrow> raises (ValidationError ''take_profit: This field cannot be null.'')
       | Some tp' \<Rightarrow>
           and_then (objects_create_order env fails
                       \<lparr>ord_id = 0, order_id = None, ord_user = sig_user signal,
                        ord_signal = Some (sig_id signal), ord_action = None,
                        ord_instrument = instrument d, entry_price = ep,
                        ord_stop_loss = sl', ord_take_profit = tp',
                        ord_status = Pending\<rparr>) (\<lambda>created.
           and_then (save_order env fails SaveOrder
                       (created\<lparr>ord_action := Some (action d)\<rparr>)) (\<lambda>od.
           and_then (float_of_decimal (entry_price od)) (\<lambda>p.
           and_then (delay fails BroadcastPending
                       (BroadcastOrderEvent (order_event_of od p Pending))) (\<lambda>_.
           and_then (delay fails EnqueueLifecycle (SimulateOrderLifecycle (ord_id od))) (\<lambda>_.
           and_then (objects_create_history fails CreateHistory (ord_id od) Pending
                       ''Order pending'') (\<lambda>h.
           save_history fails SaveHistory h))))))))))"

text \<open>The body of the \<open>try\<close>, lines 26 to 80, with \<open>signal\<close> the object in memory.\<close>

definition process_signal_body :: "environment \<Rightarrow> (operation \<Rightarrow> bool) \<Rightarrow> trading_signal
                                    \<Rightarrow> unit task" where
  "process_signal_body env fails signal =
     (case parse_signal (message_of (raw_message signal)) of
        Invalid err \<Rightarrow>
          and_then (save_signal_status_error fails SaveInvalid
                      (signal\<lparr>sig_status := SigFailed, error_message := Some err\<rparr>)) (\<lambda>_.
          delay fails NotifyInvalid
            (NotifySignalInvalid \<lparr>iv_event = ''signal.invalid'', iv_trading_id = sig_id signal,
                                  iv_user = sig_user signal, iv_account_id = sig_account signal,
                                  iv_error_message = Some err\<rparr>))
      | Valid d \<Rightarrow>
          and_then (atomic (create_order_block env fails signal d)) (\<lambda>_.
          save_signal fails SaveSuccess (signal\<lparr>sig_status := SigSuccess\<rparr>)))"

text \<open>\<open>except Exception as e\<close>, lines 82 to 86.\<close>

definition process_signal_handler :: "(operation \<Rightarrow> bool) \<Rightarrow> trading_signal \<Rightarrow> py_exception
                                       \<Rightarrow> unit task" where
  "process_signal_handler fails signal e =
     and_then (save_signal_status_error fails SaveError
                 (signal\<lparr>sig_status := SigFailed, error_message := Some (exception_str e)\<rparr>))
              (\<lambda>_. raises e)"

definition process_signal_task :: "environment \<Rightarrow> (operation \<Rightarrow> bool) \<Rightarrow> nat \<Rightarrow> unit task" where
  "process_signal_task env fails signal_id =
     and_then (get_signal signal_id) (\<lambda>loaded.
     and_then (save_signal_status fails SaveProcessing
                 (loaded\<lparr>sig_status := SigProcessing\<rparr>)) (\<lambda>_.
     try_except (process_signal_body env fails (loaded\<lparr>sig_status := SigProcessing\<rparr>))
                (process_signal_handler fails (loaded\<lparr>sig_status := SigProcessing\<rparr>))))"

section \<open>The order lifecycle simulator\<close>

text \<open>\<^verbatim>\<open>apps/order/tasks/order_life_cycle_task.py\<close>, \<open>simulate_order_lifecycle\<close>. The two
  \<open>with transaction.atomic():\<close> blocks differ in the status and the message only;
  \<open>time.sleep\<close> changes nothing that is stored.\<close>

definition lifecycle_block :: "environment \<Rightarrow> (operation \<Rightarrow> bool) \<Rightarrow> operation \<Rightarrow> operation
     \<Rightarrow> operation \<Rightarrow> operation \<Rightarrow> order_status \<Rightarrow> string \<Rightarrow> order \<Rightarrow> order task" where
  "lifecycle_block env fails op_save op_send op_create op_hsave st msg od0 =
     and_then (save_order_status env fails op_save (od0\<lparr>ord_status := st\<rparr>)) (\<lambda>od.
     and_then (float_of_decimal (entry_price od)) (\<lambda>p.
     and_then (delay fails op_send (BroadcastOrderEvent (order_event_of od p st))) (\<lambda>_.
     and_then (objects_create_history fails op_create (ord_id od) st msg) (\<lambda>h.
     and_then (save_history fails op_hsave h) (\<lambda>_. returns od)))))"

definition simulate_order_lifecycle_body :: "environment \<Rightarrow> (operation \<Rightarrow> bool) \<Rightarrow> nat \<Rightarrow> unit task" where
  "simulate_order_lifecycle_body env fails oid = (\<lambda>w.
     case find (\<lambda>r. ord_id r = oid) (orders (db w)) of
       None \<Rightarrow> (Inr (), w)
     | Some od0 \<Rightarrow>
         and_then (atomic (lifecycle_block env fails SaveExecuted BroadcastExecuted
                             CreateHistoryExecuted SaveHistoryExecuted
                             Executed ''Order executed'' od0)) (\<lambda>od.
         and_then (atomic (lifecycle_block env fails SaveClosed BroadcastClosed
                             CreateHistoryClosed SaveHistoryClosed
                             Closed ''Order closed'' od)) (\<lambda>_. returns ())) w)"

text \<open>\<open>except Order.DoesNotExist\<close> logs and returns, \<open>except Exception\<close> raises
  again.\<close>

definition simulate_order_lifecycle :: "environment \<Rightarrow> (operation \<Rightarrow> bool) \<Rightarrow> nat \<Rightarrow> unit task" where
  "simulate_order_lifecycle env fails oid =
     try_except (simulate_order_lifecycle_body env fails oid)
       (\<lambda>e. case e of DoesNotExist m \<Rightarrow> returns () | _ \<Rightarrow> raises e)"

section \<open>The pipeline as a transition system\<close>

text \<open>\<^verbatim>\<open>apps/broker/views/signals_parse_view.py\<close>: the webhook stores the raw message as
  a new signal, whose status is the default \<open>pending\<close>, and queues its processing.\<close>

definition receive_signal :: "string \<Rightarrow> nat option \<Rightarrow> string \<Rightarrow> world \<Rightarrow> world" where
  "receive_signal user account message w =
     (let sid = fresh_id (map sig_id (signals (db w)))
      in w\<lparr>db := (db w)\<lparr>signals := signals (db w) @
                 [\<lparr>sig_id = sid, sig_user = user, sig_account = account,
                   raw_message = Some message, sig_status = SigPending,
                   error_message = None\<rparr>]\<rparr>,
           queue := queue w @ [ProcessSignal sid]\<rparr>)"

definition initial_world :: world where
  "initial_world = \<lparr>db = \<lparr>signals = [], orders = [], histories = []\<rparr>, queue = []\<rparr>"

text \<open>Delivery is at least once: a task may run again, for any identifier, with any
  failures of the outside world.\<close>

inductive reachable :: "world \<Rightarrow> bool" where
  reachable_initial: "reachable initial_world"
| reachable_receive: "reachable w \<Longrightarrow> reachable (receive_signal user account message w)"
| reachable_process:
    "reachable w \<Longrightarrow> process_signal_task env fails signal_id w = (r, w') \<Longrightarrow> reachable w'"
| reachable_lifecycle:
    "reachable w \<Longrightarrow> simulate_order_lifecycle env fails oid w = (r, w') \<Longrightarrow> reachable w'"

text \<open>Any number of runs of the lifecycle simulator, one after the other.\<close>

fun run_lifecycles :: "environment \<Rightarrow> ((operation \<Rightarrow> bool) \<times> nat) list \<Rightarrow> world \<Rightarrow> world" where
  "run_lifecycles env [] w = w"
| "run_lifecycles env (run # runs) w =
     run_lifecycles env runs (snd (simulate_order_lifecycle env (fst run) (snd run) w))"

text \<open>An order with its status blanked: what is left is every other column.\<close>

definition order_frame :: "order \<Rightarrow> order" where
  "order_frame od = od\<lparr>ord_status := Pending\<rparr>"

text \<open>The transitions the specification allows for the status of a signal:
  \<open>pending \<rightarrow> processing \<rightarrow> {success, failed}\<close>.\<close>

fun spec_signal_transition :: "signal_status \<Rightarrow> signal_status \<Rightarrow> bool" where
  "spec_signal_transition SigPending SigProcessing = True"
| "spec_signal_transition SigProcessing SigSuccess = True"
| "spec_signal_transition SigProcessing SigFailed = True"
| "spec_signal_transition _ _ = False"

definition signal_status_of :: "nat \<Rightarrow> world \<Rightarrow> signal_status option" where
  "signal_status_of sid w = map_option sig_status (find (\<lambda>s. sig_id s = sid) (signals (db w)))"

definition orders_of_signal :: "nat \<Rightarrow> world \<Rightarrow> order list" where
  "orders_of_signal sid w = filter (\<lambda>r. ord_signal r = Some sid) (orders (db w))"

section \<open>A concrete run\<close>

text \<open>Modelled from the spec: \<open>round_half_up\<close> of \<^verbatim>\<open>_library/functions/number_utils.py\<close>
  is not in the source tree; the specification says that prices are rounded half-up
  to 4 fraction digits. \<open>None\<close> stays \<open>None\<close>, and a value that is not finite has no
  decimal.\<close>

definition spec_round_half_up :: "pyfloat option \<Rightarrow> nat \<Rightarrow> py_exception + rat option" where
  "spec_round_half_up v n = (case v of
       None \<Rightarrow> Inr None
     | Some (Finite q) \<Rightarrow>
         Inr (Some (if 0 \<le> q then of_int \<lfloor>q * 10 ^ n + 1 / 2\<rfloor> / 10 ^ n
                    else - (of_int \<lfloor>- q * 10 ^ n + 1 / 2\<rfloor> / 10 ^ n)))
     | Some _ \<Rightarrow> Inl (OtherException ''InvalidOperation''))"

definition example_env :: environment where
  "example_env = \<lparr>round_half_up = spec_round_half_up,
                  generate_custom_id = (\<lambda>rows. ''INV0101260001'')\<rparr>"

definition no_faults :: "operation \<Rightarrow> bool" where
  "no_faults opn = False"

definition history_fails :: "operation \<Rightarrow> bool" where
  "history_fails opn = (opn = CreateHistory)"

definition example_message :: string where
  "example_message = ''BUY EURUSD @1.5\<newline>SL 1\<newline>TP 2''"

definition example_signal :: "signal_status \<Rightarrow> string option \<Rightarrow> trading_signal" where
  "example_signal st err =
     \<lparr>sig_id = 1, sig_user = ''trader'', sig_account = Some 1,
      raw_message = Some example_message, sig_status = st, error_message = err\<rparr>"

definition example_order :: "order_status \<Rightarrow> order" where
  "example_order st =
     \<lparr>ord_id = 1, order_id = Some ''INV0101260001'', ord_user = ''trader'',
      ord_signal = Some 1, ord_action = Some BUY, ord_instrument = ''EURUSD'',
      entry_price = Some (3 / 2), ord_stop_loss = 1, ord_take_profit = 2, ord_status = st\<rparr>"

definition example_event :: "order_status \<Rightarrow> queued" where
  "example_event st = BroadcastOrderEvent
     \<lparr>ev_type = ''order.'' @ order_status_value st, ev_order_id = Some ''INV0101260001'',
      ev_instrument = ''EURUSD'', ev_entry_price = 3 / 2, ev_status = st\<rparr>"

definition example_history :: "nat \<Rightarrow> order_status \<Rightarrow> string \<Rightarrow> order_history" where
  "example_history n st msg =
     \<lparr>hist_id = n, hist_order = 1, hist_status = st, hist_description = msg\<rparr>"

text \<open>The world after the webhook took the message.\<close>

definition world_received :: world where
  "world_received = \<lparr>db = \<lparr>signals = [example_signal SigPending None], orders = [],
                            histories = []\<rparr>,
                     queue = [ProcessSignal 1]\<rparr>"

text \<open>The world after the signal was processed without failure.\<close>

definition world_processed :: world where
  "world_processed =
     \<lparr>db = \<lparr>signals = [example_signal SigSuccess None],
            orders = [example_order Pending],
            histories = [example_history 1 Pending ''Order pending'']\<rparr>,
      queue = [ProcessSignal 1, example_event Pending, SimulateOrderLifecycle 1]\<rparr>"

text \<open>The world after the lifecycle of the order ran once without failure.\<close>

definition world_closed :: world where
  "world_closed =
     \<lparr>db = \<lparr>signals = [example_signal SigSuccess None],
            orders = [example_order Closed],
            histories = [example_history 1 Pending ''Order pending'',
                         example_history 2 Executed ''Order executed'',
                         example_history 3 Closed ''Order closed'']\<rparr>,
      queue = [ProcessSignal 1, example_event Pending, SimulateOrderLifecycle 1,
               example_event Executed, example_event Closed]\<rparr>"

section \<open>Properties of the parser\<close>

subsection \<open>Evaluation on concrete text\<close>

lemma floorlog_numeral: "floorlog 2 (numeral k) = blen k"
proof (induction k)
  case One
  show ?case by (simp add: compute_floorlog)
next
  case (Bit0 k)
  have "floorlog 2 (numeral (num.Bit0 k)) = floorlog 2 (numeral (num.Bit0 k) div 2) + 1"
    by (subst compute_floorlog) simp
  then show ?case using Bit0 by simp
next
  case (Bit1 k)
  have "floorlog 2 (numeral (num.Bit1 k)) = floorlog 2 (numeral (num.Bit1 k) div 2) + 1"
    by (subst compute_floorlog) simp
  then show ?case using Bit1 by simp
qed

lemma floorlog_one: "floorlog 2 (Suc 0) = 1" "floorlog 2 1 = 1"
  by (simp_all add: compute_floorlog)

lemmas float_eval = to_double_def binexp_def pow2_def div_half_even_def scale2_def
  floorlog_numeral floorlog_one Let_def

lemmas text_eval = NL_def DQ_def SQ_def isspace_def lstrip_def rstrip_def strip_def
  startswith_def endswith_def slice_1_m1_def split_ws_def upper_char_def upper_def
  lower_char_def is_digit_def is_AZ_def is_digit_or_dot_def

lemmas float_parse_eval = digit_val_def digits_val_def drop_sign_def parse_inf_or_nan_def
  parse_exponent_def parse_decimal_def pyfloat_of_string_def float_neg_def

lemmas parser_eval = strip_double_quotes_def strip_single_quotes_def strip_quotes_def
  signal_lines_def match_price_def match_first_line_def second_token_float_def
  float_value_error_def validate_signal_def parse_text_def parse_signal_def
  float_ge_def float_gt_def

lemmas all_eval = parser_eval float_parse_eval float_eval text_eval

subsection \<open>What the parser returns\<close>

lemma not_isspace_quotes: "\<not> isspace DQ" "\<not> isspace SQ"
  by (simp_all add: isspace_def DQ_def SQ_def)

lemma strip_between:
  assumes "\<not> isspace c" "\<not> isspace d"
  shows "strip (c # x @ [d]) = c # x @ [d]"
  using assms by (simp add: strip_def lstrip_def rstrip_def)

lemma slice_between: "slice_1_m1 (c # x @ [d]) = x"
  by (simp add: slice_1_m1_def)

lemma startswith_one: "startswith (c # x) [d] = (c = d)"
  by (simp add: startswith_def)

lemma endswith_one: "endswith (c # x @ [d]) [e] = (d = e)"
  by (simp add: endswith_def)

lemma quotes_differ: "DQ \<noteq> SQ" "SQ \<noteq> DQ"
  by (simp_all add: DQ_def SQ_def)

lemma strip_quotes_double_single: "strip_quotes ([DQ, SQ] @ x @ [SQ, DQ]) = strip x"
proof -
  have a: "[DQ, SQ] @ x @ [SQ, DQ] = DQ # (SQ # x @ [SQ]) @ [DQ]" by simp
  have "strip_double_quotes ([DQ, SQ] @ x @ [SQ, DQ]) = SQ # x @ [SQ]"
    unfolding a strip_double_quotes_def
    by (simp only: startswith_one endswith_one slice_between if_True simp_thms
          strip_between [OF not_isspace_quotes(2) not_isspace_quotes(2)])
  then show ?thesis
    by (simp add: strip_quotes_def strip_single_quotes_def startswith_one endswith_one
          slice_between)
qed

lemma strip_quotes_single_double:
  "strip_quotes ([SQ, DQ] @ x @ [DQ, SQ]) = [DQ] @ x @ [DQ]"
proof -
  have a: "[SQ, DQ] @ x @ [DQ, SQ] = SQ # (DQ # x @ [DQ]) @ [SQ]" by simp
  have "strip_double_quotes ([SQ, DQ] @ x @ [DQ, SQ]) = [SQ, DQ] @ x @ [DQ, SQ]"
    by (simp add: strip_double_quotes_def startswith_def quotes_differ)
  moreover have "strip_single_quotes (SQ # (DQ # x @ [DQ]) @ [SQ]) = DQ # x @ [DQ]"
    unfolding strip_single_quotes_def
    by (simp only: startswith_one endswith_one slice_between if_True simp_thms
          strip_between [OF not_isspace_quotes(1) not_isspace_quotes(1)])
  ultimately show ?thesis by (simp add: strip_quotes_def)
qed

lemma strip_quotes_double_double:
  "strip_quotes ([DQ, DQ] @ x @ [DQ, DQ]) = [DQ] @ x @ [DQ]"
proof -
  have a: "[DQ, DQ] @ x @ [DQ, DQ] = DQ # (DQ # x @ [DQ]) @ [DQ]" by simp
  have "strip_double_quotes ([DQ, DQ] @ x @ [DQ, DQ]) = DQ # x @ [DQ]"
    unfolding a strip_double_quotes_def
    by (simp only: startswith_one endswith_one slice_between if_True simp_thms
          strip_between [OF not_isspace_quotes(1) not_isspace_quotes(1)])
  then show ?thesis
    by (simp add: strip_quotes_def strip_single_quotes_def startswith_def quotes_differ)
qed

lemma strip_quotes_single_single:
  "strip_quotes ([SQ, SQ] @ x @ [SQ, SQ]) = [SQ] @ x @ [SQ]"
proof -
  have a: "[SQ, SQ] @ x @ [SQ, SQ] = SQ # (SQ # x @ [SQ]) @ [SQ]" by simp
  have "strip_double_quotes ([SQ, SQ] @ x @ [SQ, SQ]) = [SQ, SQ] @ x @ [SQ, SQ]"
    by (simp add: strip_double_quotes_def startswith_def quotes_differ)
  moreover have "strip_single_quotes (SQ # (SQ # x @ [SQ]) @ [SQ]) = SQ # x @ [SQ]"
    unfolding strip_single_quotes_def
    by (simp only: startswith_one endswith_one slice_between if_True simp_thms
          strip_between [OF not_isspace_quotes(2) not_isspace_quotes(2)])
  ultimately show ?thesis by (simp add: strip_quotes_def)
qed

lemma strip_quotes_shapes:
  "strip_quotes m = m \<or> strip_quotes m = strip (slice_1_m1 m)
   \<or> strip_quotes m = strip (slice_1_m1 (strip (slice_1_m1 m)))"
  by (simp add: strip_quotes_def strip_double_quotes_def strip_single_quotes_def)

lemma startswith_hd: "startswith m [q] = (m \<noteq> [] \<and> hd m = q)"
  by (cases m) (simp_all add: startswith_def)

lemma endswith_last: "endswith m [q] = (m \<noteq> [] \<and> last m = q)"
  by (cases m rule: rev_cases) (simp_all add: endswith_def)

lemma enclosed_in:
  "(startswith m [q] \<and> endswith m [q]) = (m \<noteq> [] \<and> hd m = q \<and> last m = q)"
  by (auto simp: startswith_hd endswith_last)

lemma strip_quotes_rule:
  "strip_quotes m =
     (let a = (if m \<noteq> [] \<and> hd m = DQ \<and> last m = DQ then strip (slice_1_m1 m) else m)
      in if a \<noteq> [] \<and> hd a = SQ \<and> last a = SQ then strip (slice_1_m1 a) else a)"
  by (simp only: strip_quotes_def strip_double_quotes_def strip_single_quotes_def
        enclosed_in Let_def)






lemma parse_inverted_buy:
  "parse_signal (Str ''BUY EURUSD\<newline>SL 1.0890\<newline>TP 1.0850'')
     = Invalid ''For BUY, SL must be lower than TP''"
  by (simp add: all_eval)





lemma valid_signal_ordering:
  assumes "parse_signal m = Valid d"
  shows "(if action d = BUY then \<not> float_ge (stop_loss d) (take_profit d)
          else \<not> float_le (stop_loss d) (take_profit d))"
proof -
  obtain a i pv sl tp where v: "validate_signal a i pv sl tp = Valid d"
    using assms
    by (cases m rule: parse_signal_try.cases)
       (auto simp: parse_signal_def parse_text_def Let_def
             split: sum.splits list.splits option.splits if_splits prod.splits)
  then show ?thesis
    by (cases a) (auto simp: validate_signal_def split: if_splits)
qed

subsection \<open>Claims about the parser\<close>

text \<open>
  C4 (the code departs from the claim). The claim: every accepted BUY has its
  stop-loss strictly below its take-profit, every accepted SELL strictly above, and
  every input that violates this is rejected. The parser rejects with \<open>sl >= tp\<close>
  and \<open>sl <= tp\<close>, which are both false when one side is NaN, and \<open>float\<close> reads
  the token \<open>nan\<close>: the BUY signal below is accepted with a stop-loss that is not
  below its take-profit.
\<close>

theorem parse_signal_accepts_nan_stop_loss:
  "parse_signal (Str ''BUY EURUSD\<newline>SL nan\<newline>TP 1.0890'')
     = Valid \<lparr>action = BUY, instrument = ''EURUSD'', price = None, stop_loss = NaN,
              take_profit = Finite (2452209997103235 / 2251799813685248)\<rparr>
   \<and> \<not> float_lt NaN (Finite (2452209997103235 / 2251799813685248))"
  by (simp add: all_eval)

text \<open>
  C6 (amended). Parsing \<open>BUY EURUSD / SL 1.0890 / TP 1.0850\<close> returns an invalid
  result whose rejection reason is exactly \<open>For BUY, SL must be lower than TP\<close>.
\<close>

theorem parse_signal_inverted_buy_reason:
  "parse_signal (Str ''BUY EURUSD\<newline>SL 1.0890\<newline>TP 1.0850'')
     = Invalid ''For BUY, SL must be lower than TP''"
  by (rule parse_inverted_buy)

text \<open>C6 as stated fails: the reason is not the sentence of the specification.\<close>

theorem parse_signal_inverted_buy_not_spec_reason:
  "parse_signal (Str ''BUY EURUSD\<newline>SL 1.0890\<newline>TP 1.0850'')
     \<noteq> Invalid ''stop-loss must be lower than take-profit for BUY''"
  by (simp add: parse_inverted_buy)

text \<open>
  C7 (amended). Before the lines are split the parser removes an enclosing pair of
  double quotes exactly when the message starts and ends with a double quote, and
  trims what is left; it then removes an enclosing pair of single quotes exactly when
  what it has now starts and ends with a single quote, and trims again; a message
  that has neither is left as it is. At most one pair of each kind is removed. So an
  input in double quotes whose content is in single quotes loses both layers; single
  quotes around double quotes lose the single quotes only; of two pairs of the same
  kind one is left.
\<close>

theorem strip_quotes_layers:
  "strip_quotes m =
     (let a = (if m \<noteq> [] \<and> hd m = DQ \<and> last m = DQ then strip (slice_1_m1 m) else m)
      in if a \<noteq> [] \<and> hd a = SQ \<and> last a = SQ then strip (slice_1_m1 a) else a)
   \<and> strip_quotes ([DQ, SQ] @ x @ [SQ, DQ]) = strip x
   \<and> strip_quotes ([SQ, DQ] @ x @ [DQ, SQ]) = [DQ] @ x @ [DQ]
   \<and> strip_quotes ([DQ, DQ] @ x @ [DQ, DQ]) = [DQ] @ x @ [DQ]
   \<and> strip_quotes ([SQ, SQ] @ x @ [SQ, SQ]) = [SQ] @ x @ [SQ]
   \<and> (strip_quotes m = m \<or> strip_quotes m = strip (slice_1_m1 m)
        \<or> strip_quotes m = strip (slice_1_m1 (strip (slice_1_m1 m))))"
  using strip_quotes_rule [of m] strip_quotes_double_single strip_quotes_single_double
    strip_quotes_double_double strip_quotes_single_single strip_quotes_shapes by blast

text \<open>C7 as stated fails: double quotes around single quotes, both layers are
  removed, and what is left is a valid signal.\<close>

theorem strip_quotes_both_layers_removed:
  "strip_quotes ([DQ, SQ] @ ''BUY EURUSD\<newline>SL 1.0850\<newline>TP 1.0890'' @ [SQ, DQ])
     = ''BUY EURUSD\<newline>SL 1.0850\<newline>TP 1.0890''
   \<and> (\<exists>d. parse_signal (Str ([DQ, SQ] @ ''BUY EURUSD\<newline>SL 1.0850\<newline>TP 1.0890'' @ [SQ, DQ]))
            = Valid d)"
  by (simp add: all_eval)




end
